theory Spec2Isabelle
  imports Complex_Main "HOL-Library.Multiset"
begin

section \<open>Data model of screener.py\<close>

text \<open>
  A symbol is the ticker string read from the spreadsheet. The exchange ('NSE'), the
  interval (daily) and the bar count (365) are module constants of the script and are
  the same in every call, so the provider is keyed by the symbol alone.

  Prices and volumes are the floats of a pandas DataFrame: a finite binary64 value is
  modelled by the real number it stands for, so a comparison of two floats is the
  comparison of the reals. An arithmetic operation rounds: the product the script
  computes is the exact product rounded to binary64, and the means that pandas computes
  are taken from the library as it returns them. A NaN cell of a derived column (an
  undefined rolling mean, an undefined RSI) is \<open>None\<close>, and a comparison with NaN is
  false, as in Python.
\<close>

type_synonym symbol = string

text \<open>One row of the OHLCV frame: the three columns the screen reads.\<close>

record bar =
  close :: real
  high :: real
  volume :: real

type_synonym frame = "bar list"

text \<open>
  A Python \<open>Exception\<close>: \<open>IndexError\<close> is what \<open>.iloc[-1]\<close> raises on an empty
  column, \<open>ExternalError\<close> is any exception raised inside an external collaborator
  (the data provider, the spreadsheet reader, the indicator library, the live feed).
\<close>

datatype error = IndexError | ExternalError

text \<open>The calls the script makes on the external data feed object, in the order made.\<close>

datatype call =
  GetHist symbol
  | NewSeis symbol
  | NewConsumer symbol
  | DelConsumer symbol
  | DelSeis symbol

text \<open>
  The module's global state: the \<open>stop_flag\<close> event, the \<open>seis_list\<close> of tracked
  live feeds (a feed on the fixed exchange and interval is identified by its symbol), and
  the trace of calls made on the provider so far.
\<close>

record world =
  stop_flag :: bool
  seis_list :: "symbol list"
  calls :: "call list"

text \<open>What \<open>future.result()\<close> gives: the unit's return value, or the exception it raised.\<close>

type_synonym future = "error + symbol option"

text \<open>
  The external collaborators, as parameters:
  \<^item> \<open>read_excel\<close>: \<open>pd.read_excel(file_path)['Symbol'].tolist()\<close>, a list or an exception;
  \<^item> \<open>get_hist\<close>: \<open>tvl.get_hist\<close>, which raises, returns \<open>None\<close> or returns a frame;
  \<^item> \<open>rolling_mean\<close>: \<open>series.rolling(window=w).mean()\<close> of pandas, a column that holds
    NaN where the window is not full; its values are floats, computed by the library's
    own summation;
  \<^item> \<open>series_mean\<close>: \<open>series.mean()\<close> of pandas, a float or NaN;
  \<^item> \<open>rsi_indicator\<close>: \<open>ta.momentum.RSIIndicator(close, window=14).rsi()\<close>, which raises
    or returns a column that may hold NaN;
  \<^item> \<open>as_completed\<close>: the order in which the thread pool completes the submitted units
    (it depends on the pool size and on the provider's latencies);
  \<^item> \<open>feed_raises\<close>: whether a call on the live feed raises.
\<close>

record env =
  read_excel :: "error + symbol list"
  get_hist :: "symbol \<Rightarrow> error + frame option"
  rolling_mean :: "nat \<Rightarrow> real list \<Rightarrow> real option list"
  series_mean :: "real list \<Rightarrow> real option"
  rsi_indicator :: "real list \<Rightarrow> error + real option list"
  as_completed :: "future list \<Rightarrow> future list"
  feed_raises :: "call \<Rightarrow> bool"

text \<open>How the process ends a top-level function: it returns, an exception escapes, or
  \<open>sys.exit(status)\<close>.\<close>

datatype outcome = Returned | Uncaught error | SysExit nat

section \<open>Indexing and float operations used by the script\<close>

text \<open>\<open>series.iloc[-1]\<close>: the last element; IndexError on an empty series.\<close>

definition iloc_last :: "'a list \<Rightarrow> error + 'a" where
  "iloc_last xs = (if xs = [] then Inl IndexError else Inr (last xs))"

text \<open>Float comparisons where the right operand may be NaN.\<close>

definition gt_nan :: "real \<Rightarrow> real option \<Rightarrow> bool" where
  "gt_nan x y = (case y of None \<Rightarrow> False | Some v \<Rightarrow> x > v)"

definition lt_nan :: "real option \<Rightarrow> real \<Rightarrow> bool" where
  "lt_nan x y = (case x of None \<Rightarrow> False | Some v \<Rightarrow> v < y)"

text \<open>
  Rounding to binary64, to the nearest value with ties to even: a real \<open>x\<close> with
  \<open>2^e \<le> |x| < 2^(e+1)\<close> is rounded to a multiple of \<open>2^(e-52)\<close>, and below the normal
  range to a multiple of \<open>2^(-1074)\<close>. Overflow is left out: the only product of the
  script multiplies a finite float by a factor below 1.
\<close>

definition pow2 :: "int \<Rightarrow> real" where
  "pow2 k = (if 0 \<le> k then 2 ^ nat k else 1 / 2 ^ nat (- k))"

definition round_half_even :: "real \<Rightarrow> int" where
  "round_half_even x =
     (let f = \<lfloor>x\<rfloor>; d = x - of_int f in
      if d < 1 / 2 then f else if 1 / 2 < d then f + 1 else if even f then f else f + 1)"

definition exponent64 :: "real \<Rightarrow> int" where
  "exponent64 x = max \<lfloor>log 2 \<bar>x\<bar>\<rfloor> (- 1022)"

definition round64 :: "real \<Rightarrow> real" where
  "round64 x =
     (if x = 0 then 0
      else of_int (round_half_even (x / pow2 (exponent64 x - 52))) * pow2 (exponent64 x - 52))"

text \<open>The float product \<open>x * y\<close> of Python.\<close>

definition mul64 :: "real \<Rightarrow> real \<Rightarrow> real" where
  "mul64 x y = round64 (x * y)"

text \<open>The literal \<open>0.999\<close> of the script: the binary64 value nearest to it.\<close>

definition float_0999 :: real where
  "float_0999 = round64 0.999"

section \<open>The screening unit\<close>

text \<open>
  \<open>fetch_historical_data\<close>: one call of \<open>get_hist\<close>; an exception, \<open>None\<close> and an
  empty frame all give \<open>None\<close>.
\<close>

definition fetch_historical_data :: "env \<Rightarrow> symbol \<Rightarrow> world \<Rightarrow> frame option \<times> world" where
  "fetch_historical_data e symbol w =
     (let w' = w\<lparr>calls := calls w @ [GetHist symbol]\<rparr> in
      case get_hist e symbol of
        Inl err \<Rightarrow> (None, w')
      | Inr None \<Rightarrow> (None, w')
      | Inr (Some df) \<Rightarrow> if df = [] then (None, w') else (Some df, w'))"

text \<open>The frame after \<open>calculate_indicators\<close>: the bars and the three added columns.\<close>

record indicators =
  bars :: frame
  DMA50 :: "real option list"
  DMA200 :: "real option list"
  RSI :: "real option list"

definition calculate_indicators :: "env \<Rightarrow> frame \<Rightarrow> error + indicators" where
  "calculate_indicators e df =
     (case rsi_indicator e (map close df) of
        Inl err \<Rightarrow> Inl err
      | Inr r \<Rightarrow> Inr \<lparr>bars = df,
                      DMA50 = rolling_mean e 50 (map close df),
                      DMA200 = rolling_mean e 200 (map close df),
                      RSI = r\<rparr>)"

text \<open>Sequencing of statements that may raise.\<close>

definition bind :: "error + 'a \<Rightarrow> ('a \<Rightarrow> error + 'b) \<Rightarrow> error + 'b" where
  "bind m f = (case m of Inl err \<Rightarrow> Inl err | Inr x \<Rightarrow> f x)"

text \<open>The condition of the \<open>if\<close> that checks the criteria; the product is rounded.\<close>

definition criteria ::
  "real \<Rightarrow> real option \<Rightarrow> real option \<Rightarrow> real \<Rightarrow> real option \<Rightarrow> real option \<Rightarrow> real \<Rightarrow> bool" where
  "criteria current_price dma_50 dma_200 day_high rsi avg_volume current_volume =
     (gt_nan current_price dma_50 \<and> gt_nan current_price dma_200
      \<and> current_price \<ge> mul64 day_high float_0999 \<and> lt_nan rsi 70
      \<and> gt_nan current_volume avg_volume)"

text \<open>The statements of \<open>screen_stock\<close> under its guard, from \<open>calculate_indicators\<close>
  to the \<open>return symbol\<close>; an exception of any of them escapes the unit.\<close>

definition evaluate :: "env \<Rightarrow> symbol \<Rightarrow> frame \<Rightarrow> error + symbol option" where
  "evaluate e symbol df0 =
     bind (calculate_indicators e df0) (\<lambda>df.
     bind (iloc_last (map close (bars df))) (\<lambda>current_price.
     bind (iloc_last (DMA50 df)) (\<lambda>dma_50.
     bind (iloc_last (DMA200 df)) (\<lambda>dma_200.
     bind (iloc_last (map high (bars df))) (\<lambda>day_high.
     bind (iloc_last (RSI df)) (\<lambda>rsi.
     let avg_volume = series_mean e (map volume (bars df)) in
     bind (iloc_last (map volume (bars df))) (\<lambda>current_volume.
     if criteria current_price dma_50 dma_200 day_high rsi avg_volume current_volume
     then Inr (Some symbol)
     else Inr None)))))))"

definition screen_stock :: "env \<Rightarrow> symbol \<Rightarrow> world \<Rightarrow> future \<times> world" where
  "screen_stock e symbol w =
     (case fetch_historical_data e symbol w of
        (None, w') \<Rightarrow> (Inr None, w')
      | (Some df, w') \<Rightarrow>
          if length df \<ge> 200 then (evaluate e symbol df, w') else (Inr None, w'))"

section \<open>The batch and the subscriptions\<close>

text \<open>\<open>load_stock_symbols\<close>: the list, or \<open>sys.exit(1)\<close> (\<open>Inl 1\<close>) when reading raises.\<close>

definition load_stock_symbols :: "env \<Rightarrow> nat + symbol list" where
  "load_stock_symbols e =
     (case read_excel e of Inl err \<Rightarrow> Inl 1 | Inr stock_symbols \<Rightarrow> Inr stock_symbols)"

text \<open>
  \<open>executor.submit(screen_stock, symbol)\<close> for each symbol of the list, one future per
  list entry. The units run on the pool's threads; the trace lists their provider calls
  in submission order, and the order of completion is left to \<open>as_completed\<close>.
\<close>

fun submit :: "env \<Rightarrow> symbol list \<Rightarrow> world \<Rightarrow> future list \<times> world" where
  "submit e [] w = ([], w)"
| "submit e (symbol # rest) w =
     (case screen_stock e symbol w of
        (f, w1) \<Rightarrow> (case submit e rest w1 of (fs, w2) \<Rightarrow> (f # fs, w2)))"

text \<open>
  The loop over the completed futures: an exception of \<open>future.result()\<close> is logged, a
  truthy result (a symbol that is not the empty string) is appended.
\<close>

fun gather :: "future list \<Rightarrow> symbol list \<Rightarrow> symbol list" where
  "gather [] selected_stocks = selected_stocks"
| "gather (Inl err # fs) selected_stocks = gather fs selected_stocks"
| "gather (Inr None # fs) selected_stocks = gather fs selected_stocks"
| "gather (Inr (Some result) # fs) selected_stocks =
     gather fs (if result \<noteq> [] then selected_stocks @ [result] else selected_stocks)"

text \<open>The first part of \<open>main\<close>, from \<open>if stock_symbols\<close> to the report of the
  selected stocks: it yields \<open>selected_stocks\<close>.\<close>

definition batch_screen :: "env \<Rightarrow> symbol list \<Rightarrow> world \<Rightarrow> symbol list \<times> world" where
  "batch_screen e stock_symbols w =
     (if stock_symbols \<noteq> [] then
        (case submit e stock_symbols w of
           (futures, w') \<Rightarrow> (gather (as_completed e futures) [], w'))
      else ([], w))"

text \<open>A call on the live feed: it is recorded in the trace, and it may raise.\<close>

definition feed_call :: "env \<Rightarrow> call \<Rightarrow> world \<Rightarrow> (error + unit) \<times> world" where
  "feed_call e c w =
     (if feed_raises e c then Inl ExternalError else Inr (), w\<lparr>calls := calls w @ [c]\<rparr>)"

text \<open>The last loop of \<open>main\<close>: a feed, a consumer and an entry of \<open>seis_list\<close> for
  each element of \<open>selected_stocks\<close>.\<close>

fun subscribe :: "env \<Rightarrow> symbol list \<Rightarrow> world \<Rightarrow> outcome \<times> world" where
  "subscribe e [] w = (Returned, w)"
| "subscribe e (symbol # rest) w =
     (case feed_call e (NewSeis symbol) w of
        (Inl err, w1) \<Rightarrow> (Uncaught err, w1)
      | (Inr u, w1) \<Rightarrow>
          (case feed_call e (NewConsumer symbol) w1 of
             (Inl err, w2) \<Rightarrow> (Uncaught err, w2)
           | (Inr v, w2) \<Rightarrow> subscribe e rest (w2\<lparr>seis_list := seis_list w2 @ [symbol]\<rparr>)))"

definition main :: "env \<Rightarrow> world \<Rightarrow> outcome \<times> world" where
  "main e w =
     (case load_stock_symbols e of
        Inl status \<Rightarrow> (SysExit status, w)
      | Inr stock_symbols \<Rightarrow>
          (case batch_screen e stock_symbols w of
             (selected_stocks, w1) \<Rightarrow> subscribe e selected_stocks w1))"

text \<open>The loop of \<open>signal_handler\<close> over \<open>seis_list\<close>.\<close>

fun teardown :: "env \<Rightarrow> symbol list \<Rightarrow> world \<Rightarrow> (error + unit) \<times> world" where
  "teardown e [] w = (Inr (), w)"
| "teardown e (seis # rest) w =
     (case feed_call e (DelConsumer seis) w of
        (Inl err, w1) \<Rightarrow> (Inl err, w1)
      | (Inr u, w1) \<Rightarrow>
          (case feed_call e (DelSeis seis) w1 of
             (Inl err, w2) \<Rightarrow> (Inl err, w2)
           | (Inr v, w2) \<Rightarrow> teardown e rest w2))"

definition signal_handler :: "env \<Rightarrow> world \<Rightarrow> outcome \<times> world" where
  "signal_handler e w =
     (let w0 = w\<lparr>stop_flag := True\<rparr> in
      case teardown e (seis_list w0) w0 of
        (Inl err, w1) \<Rightarrow> (Uncaught err, w1)
      | (Inr u, w1) \<Rightarrow> (SysExit 0, w1))"

section \<open>The screening rule as the specification words it\<close>

text \<open>
  The indicator snapshot of the specification, attached to the latest bar of a series:
  the latest close, high and volume, the short and the long moving average (over 50 and
  200 bars) and the mean volume as the indicator engine gives them for the series, and
  the momentum value (the last value of the RSI column). A value the engine does not
  give is undefined.
\<close>

record snapshot =
  current_close :: real
  short_ma :: "real option"
  long_ma :: "real option"
  day_high :: real
  momentum :: "real option"
  current_volume :: real
  mean_volume :: "real option"

definition latest :: "real option list \<Rightarrow> real option" where
  "latest col = (if col = [] then None else last col)"

definition moving_average :: "env \<Rightarrow> nat \<Rightarrow> frame \<Rightarrow> real option" where
  "moving_average e W df = latest (rolling_mean e W (map close df))"

definition momentum_value :: "env \<Rightarrow> frame \<Rightarrow> real option" where
  "momentum_value e df =
     (case rsi_indicator e (map close df) of
        Inl err \<Rightarrow> None
      | Inr col \<Rightarrow> latest col)"

definition latest_snapshot :: "env \<Rightarrow> frame \<Rightarrow> snapshot" where
  "latest_snapshot e df =
     \<lparr>current_close = close (last df),
      short_ma = moving_average e 50 df,
      long_ma = moving_average e 200 df,
      day_high = high (last df),
      momentum = momentum_value e df,
      current_volume = volume (last df),
      mean_volume = series_mean e (map volume df)\<rparr>"

text \<open>A comparison with an undefined value does not hold.\<close>

definition above :: "real \<Rightarrow> real option \<Rightarrow> bool" where
  "above x y = (case y of None \<Rightarrow> False | Some v \<Rightarrow> x > v)"

text \<open>Verdict = pass iff all five conditions hold; 0.999 times the day high is the product
  of the real numbers.\<close>

definition spec_pass :: "snapshot \<Rightarrow> bool" where
  "spec_pass s =
     (above (current_close s) (short_ma s)
      \<and> above (current_close s) (long_ma s)
      \<and> current_close s \<ge> 0.999 * day_high s
      \<and> (case momentum s of None \<Rightarrow> False | Some r \<Rightarrow> r < 70)
      \<and> above (current_volume s) (mean_volume s))"

text \<open>The same five conditions with the third in the arithmetic of the program: 0.999
  times the day high is the binary64 product of the day high and the float 0.999.\<close>

definition float_pass :: "snapshot \<Rightarrow> bool" where
  "float_pass s =
     (above (current_close s) (short_ma s)
      \<and> above (current_close s) (long_ma s)
      \<and> current_close s \<ge> mul64 float_0999 (day_high s)
      \<and> (case momentum s of None \<Rightarrow> False | Some r \<Rightarrow> r < 70)
      \<and> above (current_volume s) (mean_volume s))"

text \<open>The scenario of the specification, with the momentum value left open; the day high
  is the float written 105.1.\<close>

definition float_1051 :: real where
  "float_1051 = round64 105.1"

definition scenario :: "real \<Rightarrow> snapshot" where
  "scenario r =
     \<lparr>current_close = 105, short_ma = Some 100, long_ma = Some 98,
      day_high = float_1051, momentum = Some r, current_volume = 2000000,
      mean_volume = Some 1500000\<rparr>"

section \<open>Auxiliary definitions\<close>

text \<open>The value of the future of one unit; it does not depend on the global state.\<close>

definition unit_result :: "env \<Rightarrow> symbol \<Rightarrow> future" where
  "unit_result e symbol =
     (case get_hist e symbol of
        Inl err \<Rightarrow> Inr None
      | Inr None \<Rightarrow> Inr None
      | Inr (Some df) \<Rightarrow> if 200 \<le> length df then evaluate e symbol df else Inr None)"

text \<open>What the loop over the completed futures appends for one future.\<close>

definition picked :: "future \<Rightarrow> symbol list" where
  "picked f = (case f of Inl err \<Rightarrow> [] | Inr None \<Rightarrow> []
               | Inr (Some result) \<Rightarrow> if result \<noteq> [] then [result] else [])"

text \<open>A symbol is selected when its unit returns it and it is truthy.\<close>

definition selects :: "env \<Rightarrow> symbol \<Rightarrow> bool" where
  "selects e symbol = (unit_result e symbol = Inr (Some symbol) \<and> symbol \<noteq> [])"

text \<open>The result of a unit without the symbol's name.\<close>

datatype verdict = Selected | NotSelected | Raised error

definition verdict_of :: "future \<Rightarrow> verdict" where
  "verdict_of f = (case f of Inl err \<Rightarrow> Raised err | Inr None \<Rightarrow> NotSelected
                   | Inr (Some result) \<Rightarrow> Selected)"

text \<open>The feed calls of the subscription loop and of the teardown loop when nothing
  raises, and the part of a sequence of calls made when a raising call ends it.\<close>

definition subscribe_calls :: "symbol list \<Rightarrow> call list" where
  "subscribe_calls selected_stocks =
     concat (map (\<lambda>symbol. [NewSeis symbol, NewConsumer symbol]) selected_stocks)"

definition teardown_calls :: "symbol list \<Rightarrow> call list" where
  "teardown_calls seis = concat (map (\<lambda>s. [DelConsumer s, DelSeis s]) seis)"

fun until_raise :: "env \<Rightarrow> call list \<Rightarrow> call list" where
  "until_raise e [] = []"
| "until_raise e (c # cs) = (if feed_raises e c then [c] else c # until_raise e cs)"

text \<open>The state of the module when \<open>main\<close> starts.\<close>

definition initial_world :: world where
  "initial_world = \<lparr>stop_flag = False, seis_list = [], calls = []\<rparr>"

text \<open>
  The means with exact sums and one rounding of the quotient. pandas returns these
  values on a series whose partial sums are all exact in binary64, as they are for the
  series of the examples below (integer closes and volumes, or zeros and one value).
\<close>

definition rounded_rolling_mean :: "nat \<Rightarrow> real list \<Rightarrow> real option list" where
  "rounded_rolling_mean window xs =
     map (\<lambda>i. if i + 1 < window then None
              else Some (round64 (sum_list (take window (drop (i + 1 - window) xs))
                                   / real window)))
       [0..<length xs]"

definition rounded_mean :: "real list \<Rightarrow> real option" where
  "rounded_mean xs =
     (if xs = [] then None else Some (round64 (sum_list xs / real (length xs))))"

text \<open>
  A series of 250 daily bars with the figures of the specification's scenario: the last
  close is 105 and the last high the float 105.1, the last 50 closes sum to 5000, the
  last 200 closes to 19600, the last volume is 2000000 and the volumes sum to 375000000.
\<close>

definition scenario_frame :: frame where
  "scenario_frame =
     replicate 50 \<lparr>close = 90, high = 91, volume = 1490000\<rparr>
     @ replicate 100 \<lparr>close = 97, high = 98, volume = 1500000\<rparr>
     @ replicate 50 \<lparr>close = 98, high = 99, volume = 1500000\<rparr>
     @ replicate 48 \<lparr>close = 100, high = 101, volume = 1500000\<rparr>
     @ [\<lparr>close = 95, high = 96, volume = 1500000\<rparr>,
        \<lparr>close = 105, high = float_1051, volume = 2000000\<rparr>]"

text \<open>
  An environment for concrete runs: the provider has the scenario's series for AAA and
  BBB, its first 120 bars for SHORT, raises for DOWN and has nothing for any other
  symbol; the means are the rounded means above; the RSI column is constantly \<open>r\<close>;
  the pool completes the units in the reverse of the submission order; no call on the
  live feed raises.
\<close>

definition example_env :: "real \<Rightarrow> symbol list \<Rightarrow> env" where
  "example_env r universe =
     \<lparr>read_excel = Inr universe,
      get_hist = (\<lambda>s. if s = ''AAA'' \<or> s = ''BBB'' then Inr (Some scenario_frame)
                      else if s = ''SHORT'' then Inr (Some (take 120 scenario_frame))
                      else if s = ''DOWN'' then Inl ExternalError
                      else Inr None),
      rolling_mean = rounded_rolling_mean,
      series_mean = rounded_mean,
      rsi_indicator = (\<lambda>closes. Inr (map (\<lambda>c. Some r) closes)),
      as_completed = rev,
      feed_raises = (\<lambda>c. False)\<rparr>"



text \<open>The same environment with the provider failing for BBB.\<close>

definition outage_env :: env where
  "outage_env =
     (example_env 55 [''AAA'', ''BBB''])
       \<lparr>get_hist := (get_hist (example_env 55 [''AAA'', ''BBB'']))(''BBB'' := Inl ExternalError)\<rparr>"

text \<open>The same environment with a live feed whose \<open>del_consumer\<close> raises for AAA.\<close>

definition detach_fails_env :: env where
  "detach_fails_env = (example_env 55 [])\<lparr>feed_raises := (\<lambda>c. c = DelConsumer ''AAA'')\<rparr>"

section \<open>Binary64 rounding: evaluation\<close>

lemma pow2_powr: "pow2 k = 2 powr (of_int k)"
proof (cases "0 \<le> k")
  case True
  then have "2 powr (of_int k) = (2::real) powr (real (nat k))" by simp
  also have "\<dots> = 2 ^ nat k" by (simp add: powr_realpow)
  finally show ?thesis using True by (simp add: pow2_def)
next
  case False
  then have "2 powr (of_int k) = (2::real) powr (- real (nat (- k)))" by simp
  also have "\<dots> = 1 / 2 ^ nat (- k)" by (simp add: powr_minus powr_realpow divide_inverse)
  finally show ?thesis using False by (simp add: pow2_def)
qed

lemma exponent64_eq:
  assumes "pow2 k \<le> \<bar>x\<bar>" and "\<bar>x\<bar> < pow2 (k + 1)" and "- 1022 \<le> k"
  shows "exponent64 x = k"
proof -
  have "0 < pow2 k" by (simp add: pow2_powr)
  with assms(1) have pos: "0 < \<bar>x\<bar>" by simp
  have "\<lfloor>log 2 \<bar>x\<bar>\<rfloor> = k"
    using assms(1,2) pos by (simp add: floor_log_eq_powr_iff pow2_powr)
  then show ?thesis using assms(3) by (simp add: exponent64_def)
qed

lemma round64_eval:
  assumes "pow2 k \<le> \<bar>x\<bar>" and "\<bar>x\<bar> < pow2 (k + 1)" and "- 1022 \<le> k"
  shows "round64 x = of_int (round_half_even (x / pow2 (k - 52))) * pow2 (k - 52)"
proof -
  have "0 < pow2 k" by (simp add: pow2_powr)
  with assms(1) have "x \<noteq> 0" by auto
  then show ?thesis by (simp add: round64_def exponent64_eq [OF assms])
qed

lemma float_0999_value: "float_0999 = 8998192055486251 / 9007199254740992"
  unfolding float_0999_def
  by (subst round64_eval [where k = "- 1"]) (simp_all add: pow2_def round_half_even_def Let_def)

lemma float_1051_value: "float_1051 = 3697877506536243 / 35184372088832"
  unfolding float_1051_def
  by (subst round64_eval [where k = 6]) (simp_all add: pow2_def round_half_even_def Let_def)

lemma round64_100: "round64 100 = 100"
  by (subst round64_eval [where k = 6]) (simp_all add: pow2_def round_half_even_def Let_def)

lemma round64_98: "round64 98 = 98"
  by (subst round64_eval [where k = 6]) (simp_all add: pow2_def round_half_even_def Let_def)

lemma round64_1500000: "round64 1500000 = 1500000"
  by (subst round64_eval [where k = 20]) (simp_all add: pow2_def round_half_even_def Let_def)

lemma scenario_product: "mul64 float_0999 float_1051 = 3694179629029707 / 35184372088832"
  unfolding mul64_def float_0999_value float_1051_value
  by (subst round64_eval [where k = 6]) (simp_all add: pow2_def round_half_even_def Let_def)





lemma mul64_commute: "mul64 x y = mul64 y x"
  by (simp add: mul64_def mult.commute)

section \<open>The screening unit: basic facts\<close>

lemma last_map_upt: "0 < n \<Longrightarrow> last (map f [0..<n]) = f (n - 1)"
  by (cases n) simp_all

lemma latest_rounded_rolling_mean:
  assumes "xs \<noteq> []"
  shows "latest (rounded_rolling_mean w xs) =
     (if length xs < w then None
      else Some (round64 (sum_list (drop (length xs - w) xs) / real w)))"
proof -
  have n: "0 < length xs" using assms by simp
  have "last (rounded_rolling_mean w xs) =
     (if length xs < w then None
      else Some (round64 (sum_list (drop (length xs - w) xs) / real w)))"
    using n unfolding rounded_rolling_mean_def by (auto simp: last_map_upt)
  moreover have "rounded_rolling_mean w xs \<noteq> []"
    using assms by (simp add: rounded_rolling_mean_def)
  ultimately show ?thesis by (simp add: latest_def)
qed

lemma iloc_last_map: "xs \<noteq> [] \<Longrightarrow> iloc_last (map f xs) = Inr (f (last xs))"
  by (simp add: iloc_last_def last_map)

lemma iloc_last_latest:
  "iloc_last col = (if col = [] then Inl IndexError else Inr (latest col))"
  by (simp add: iloc_last_def latest_def)

lemma screen_stock_fst: "fst (screen_stock e symbol w) = unit_result e symbol"
  by (auto simp: screen_stock_def fetch_historical_data_def unit_result_def Let_def
      split: sum.splits option.splits)

lemma screen_stock_snd:
  "snd (screen_stock e symbol w) = w\<lparr>calls := calls w @ [GetHist symbol]\<rparr>"
  by (auto simp: screen_stock_def fetch_historical_data_def Let_def
      split: sum.splits option.splits)

lemma evaluate_eq:
  assumes "df \<noteq> []"
  shows "evaluate e symbol df =
     (case rsi_indicator e (map close df) of
        Inl err \<Rightarrow> Inl err
      | Inr r \<Rightarrow>
          if rolling_mean e 50 (map close df) = [] \<or> rolling_mean e 200 (map close df) = []
             \<or> r = []
          then Inl IndexError
          else if criteria (close (last df)) (moving_average e 50 df) (moving_average e 200 df)
                    (high (last df)) (latest r) (series_mean e (map volume df))
                    (volume (last df))
          then Inr (Some symbol) else Inr None)"
proof (cases "rsi_indicator e (map close df)")
  case (Inl err)
  then show ?thesis by (simp add: evaluate_def calculate_indicators_def bind_def)
next
  case (Inr r)
  with assms show ?thesis
    by (simp add: evaluate_def calculate_indicators_def bind_def iloc_last_map
        iloc_last_latest moving_average_def)
qed

lemma criteria_float_pass:
  assumes "rsi_indicator e (map close df) = Inr r"
  shows "criteria (close (last df)) (moving_average e 50 df) (moving_average e 200 df)
           (high (last df)) (latest r) (series_mean e (map volume df)) (volume (last df))
         \<longleftrightarrow> float_pass (latest_snapshot e df)"
  using assms
  by (simp add: criteria_def float_pass_def latest_snapshot_def gt_nan_def lt_nan_def
      above_def momentum_value_def mul64_commute)



lemma evaluate_defined:
  assumes "df \<noteq> []" and "short_ma (latest_snapshot e df) \<noteq> None"
    and "long_ma (latest_snapshot e df) \<noteq> None" and "momentum (latest_snapshot e df) \<noteq> None"
  shows "evaluate e symbol df =
     (if float_pass (latest_snapshot e df) then Inr (Some symbol) else Inr None)"
proof -
  from assms(2,3) have c: "rolling_mean e 50 (map close df) \<noteq> []"
    "rolling_mean e 200 (map close df) \<noteq> []"
    by (auto simp: latest_snapshot_def moving_average_def latest_def)
  from assms(4) obtain r where r: "rsi_indicator e (map close df) = Inr r" "r \<noteq> []"
    by (auto simp: latest_snapshot_def momentum_value_def latest_def
        split: sum.splits if_splits)
  show ?thesis using assms(1) c r by (simp add: evaluate_eq criteria_float_pass)
qed

lemma evaluate_cases:
  "evaluate e symbol df = Inr (Some symbol) \<or> evaluate e symbol df = Inr None
   \<or> (\<exists>err. evaluate e symbol df = Inl err)"
  by (auto simp: evaluate_def bind_def split: sum.splits)

lemma evaluate_cong:
  assumes "rolling_mean e' = rolling_mean e" and "series_mean e' = series_mean e"
    and "rsi_indicator e' = rsi_indicator e"
  shows "evaluate e' symbol df = evaluate e symbol df"
  unfolding evaluate_def calculate_indicators_def assms by (rule refl)

lemma unit_result_cong:
  assumes "get_hist e' symbol = get_hist e symbol"
    and "rolling_mean e' = rolling_mean e" and "series_mean e' = series_mean e"
    and "rsi_indicator e' = rsi_indicator e"
  shows "unit_result e' symbol = unit_result e symbol"
  using assms(1) evaluate_cong [OF assms(2,3,4), of symbol]
  by (simp add: unit_result_def split: sum.splits option.splits)

lemma evaluate_verdict:
  "verdict_of (evaluate e s1 df) = verdict_of (evaluate e s2 df)"
  by (auto simp: evaluate_def bind_def verdict_of_def Let_def split: sum.splits)

lemma unit_result_unavailable:
  assumes "(\<exists>err. get_hist e symbol = Inl err) \<or> get_hist e symbol = Inr None
           \<or> (\<exists>df. get_hist e symbol = Inr (Some df) \<and> length df < 200)"
  shows "unit_result e symbol = Inr None"
  using assms by (auto simp: unit_result_def)

lemma unit_result_rsi_raises:
  assumes "get_hist e symbol = Inr (Some df)" and "rsi_indicator e (map close df) = Inl err"
  shows "unit_result e symbol \<noteq> Inr (Some symbol)"
  using assms by (simp add: unit_result_def evaluate_def calculate_indicators_def bind_def)

lemma unit_result_cases:
  "unit_result e symbol = Inr (Some symbol) \<or> unit_result e symbol = Inr None
   \<or> (\<exists>err. unit_result e symbol = Inl err)"
  using evaluate_cases [of e symbol]
  by (auto simp: unit_result_def split: sum.splits option.splits)

subsection \<open>The scenario's series\<close>

lemma length_scenario_frame: "length scenario_frame = 250"
  by (simp add: scenario_frame_def)

lemma scenario_frame_nonempty: "scenario_frame \<noteq> []"
  by (simp add: scenario_frame_def)

lemma last_scenario_frame:
  "last scenario_frame = \<lparr>close = 105, high = float_1051, volume = 2000000\<rparr>"
  by (simp add: scenario_frame_def)

lemma closes50_scenario_frame: "sum_list (drop 200 (map close scenario_frame)) = 5000"
  by (simp add: scenario_frame_def sum_list_replicate)

lemma closes200_scenario_frame: "sum_list (drop 50 (map close scenario_frame)) = 19600"
  by (simp add: scenario_frame_def sum_list_replicate)

lemma volume_scenario_frame: "sum_list (map volume scenario_frame) = 375000000"
  by (simp add: scenario_frame_def sum_list_replicate)

lemma ma50_scenario_frame: "moving_average (example_env r universe) 50 scenario_frame = Some 100"
  by (simp add: moving_average_def example_env_def latest_rounded_rolling_mean
      scenario_frame_nonempty length_scenario_frame closes50_scenario_frame round64_100)

lemma ma200_scenario_frame:
  "moving_average (example_env r universe) 200 scenario_frame = Some 98"
  by (simp add: moving_average_def example_env_def latest_rounded_rolling_mean
      scenario_frame_nonempty length_scenario_frame closes200_scenario_frame round64_98)

lemma mean_volume_scenario_frame:
  "series_mean (example_env r universe) (map volume scenario_frame) = Some 1500000"
  by (simp add: example_env_def rounded_mean_def scenario_frame_nonempty
      length_scenario_frame volume_scenario_frame round64_1500000)

lemma momentum_scenario_frame:
  "momentum_value (example_env r universe) scenario_frame = Some r"
  by (simp add: momentum_value_def example_env_def latest_def scenario_frame_nonempty last_map)

lemma snapshot_scenario_frame:
  "latest_snapshot (example_env r universe) scenario_frame = scenario r"
  by (simp add: latest_snapshot_def scenario_def ma50_scenario_frame ma200_scenario_frame
      mean_volume_scenario_frame momentum_scenario_frame last_scenario_frame)

lemma float_pass_scenario: "float_pass (scenario r) \<longleftrightarrow> r < 70"
  by (simp add: float_pass_def scenario_def above_def scenario_product)

lemma example_evaluate:
  "evaluate (example_env r universe) symbol scenario_frame
     = (if r < 70 then Inr (Some symbol) else Inr None)"
proof -
  have "evaluate (example_env r universe) symbol scenario_frame =
     (if float_pass (latest_snapshot (example_env r universe) scenario_frame)
      then Inr (Some symbol) else Inr None)"
    by (rule evaluate_defined)
      (simp_all add: scenario_frame_nonempty snapshot_scenario_frame scenario_def)
  then show ?thesis by (simp add: snapshot_scenario_frame float_pass_scenario)
qed

lemma example_unit_result:
  "unit_result (example_env r universe) symbol =
     (if (symbol = ''AAA'' \<or> symbol = ''BBB'') \<and> r < 70 then Inr (Some symbol) else Inr None)"
proof -
  have g: "get_hist (example_env r universe) =
     (\<lambda>s. if s = ''AAA'' \<or> s = ''BBB'' then Inr (Some scenario_frame)
           else if s = ''SHORT'' then Inr (Some (take 120 scenario_frame))
           else if s = ''DOWN'' then Inl ExternalError
           else Inr None)"
    by (simp add: example_env_def)
  show ?thesis
    unfolding unit_result_def g
    by (simp add: example_evaluate length_scenario_frame)
qed

subsection \<open>The series at the rounding boundary\<close>












section \<open>The screening rule\<close>




section \<open>The batch\<close>

text \<open>
  The pool completes every submitted unit once, in an order that depends on the pool size
  and on the provider: the facts about the batch assume of \<open>as_completed\<close> only that
  it permutes the futures, so they hold for every pool size and every schedule.
\<close>

lemma gather_eq: "gather fs selected_stocks = selected_stocks @ concat (map picked fs)"
  by (induction fs selected_stocks rule: gather.induct) (simp_all add: picked_def)

lemma mset_concat_picked:
  "mset (concat (map picked fs)) = sum_mset (image_mset (mset \<circ> picked) (mset fs))"
  by (induction fs) simp_all

lemma gather_permuted:
  assumes "mset fs' = mset fs"
  shows "mset (gather fs' []) = mset (gather fs [])"
  using assms by (simp add: gather_eq mset_concat_picked)

lemma submit_Cons:
  "submit e (symbol # rest) w =
     (fst (screen_stock e symbol w) # fst (submit e rest (snd (screen_stock e symbol w))),
      snd (submit e rest (snd (screen_stock e symbol w))))"
  by (simp split: prod.splits)

lemma submit_fst: "fst (submit e stock_symbols w) = map (unit_result e) stock_symbols"
  by (induction stock_symbols arbitrary: w)
    (simp_all add: submit_Cons screen_stock_fst del: submit.simps(2))

lemma submit_snd:
  "snd (submit e stock_symbols w) = w\<lparr>calls := calls w @ map GetHist stock_symbols\<rparr>"
  by (induction stock_symbols arbitrary: w)
    (simp_all add: submit_Cons screen_stock_snd del: submit.simps(2))

lemma picked_unit_result:
  "picked (unit_result e symbol) = (if selects e symbol then [symbol] else [])"
  using unit_result_cases [of e symbol] by (auto simp: picked_def selects_def)

lemma gather_submitted:
  "gather (map (unit_result e) stock_symbols) [] = filter (selects e) stock_symbols"
  by (induction stock_symbols) (simp_all add: gather_eq picked_unit_result)

lemma batch_screen_mset:
  assumes "\<forall>fs. mset (as_completed e fs) = mset fs"
  shows "mset (fst (batch_screen e stock_symbols w)) = mset (filter (selects e) stock_symbols)"
proof (cases "stock_symbols = []")
  case True
  then show ?thesis by (simp add: batch_screen_def)
next
  case False
  have "fst (batch_screen e stock_symbols w)
      = gather (as_completed e (fst (submit e stock_symbols w))) []"
    using False by (simp add: batch_screen_def case_prod_beta)
  then have "mset (fst (batch_screen e stock_symbols w))
      = mset (gather (map (unit_result e) stock_symbols) [])"
    using assms gather_permuted [of "as_completed e (map (unit_result e) stock_symbols)"]
    by (simp add: submit_fst)
  then show ?thesis by (simp add: gather_submitted)
qed

lemma batch_screen_snd:
  "snd (batch_screen e stock_symbols w) = w\<lparr>calls := calls w @ map GetHist stock_symbols\<rparr>"
  by (cases "stock_symbols = []") (simp_all add: batch_screen_def submit_snd case_prod_beta)

lemma submit_eq:
  "submit e stock_symbols w =
     (map (unit_result e) stock_symbols, w\<lparr>calls := calls w @ map GetHist stock_symbols\<rparr>)"
  by (rule prod_eqI) (simp_all add: submit_fst submit_snd)

lemma example_batch:
  "fst (batch_screen (example_env 55 universe) [''AAA'', ''SHORT'', ''DOWN'', ''BBB''] w)
     = [''BBB'', ''AAA'']"
  by (simp add: batch_screen_def submit_eq example_unit_result)
    (simp add: example_env_def)

lemma example_batch_twice:
  "batch_screen (example_env 55 universe) [''AAA'', ''AAA''] w =
     ([''AAA'', ''AAA''], w\<lparr>calls := calls w @ [GetHist ''AAA'', GetHist ''AAA'']\<rparr>)"
  by (simp add: batch_screen_def submit_eq example_unit_result) (simp add: example_env_def)

lemma outage_unit_result:
  "unit_result outage_env symbol = (if symbol = ''AAA'' then Inr (Some symbol) else Inr None)"
proof (cases "symbol = ''BBB''")
  case True
  then show ?thesis by (simp add: unit_result_def outage_env_def)
next
  case False
  then have "unit_result outage_env symbol
      = unit_result (example_env 55 [''AAA'', ''BBB'']) symbol"
    by (intro unit_result_cong) (simp_all add: outage_env_def)
  with False show ?thesis by (simp add: example_unit_result)
qed

text \<open>
  Claim C10. Every symbol of the aggregated passing list is an element of the input
  universe list: a unit returns its own symbol, returns \<open>None\<close> or raises, so the
  passing list is a sub-collection of the symbols submitted.
\<close>

theorem pass_list_within_universe:
  assumes "\<forall>fs. mset (as_completed e fs) = mset fs"
  shows "set (fst (batch_screen e stock_symbols w)) \<subseteq> set stock_symbols
       \<and> (fst (screen_stock e symbol w') = Inr (Some symbol)
          \<or> fst (screen_stock e symbol w') = Inr None
          \<or> (\<exists>err. fst (screen_stock e symbol w') = Inl err))"
proof -
  have "set (fst (batch_screen e stock_symbols w)) = set (filter (selects e) stock_symbols)"
    using batch_screen_mset [OF assms, of stock_symbols w] by (rule mset_eq_setD)
  then show ?thesis
    using unit_result_cases [of e symbol] by (auto simp: screen_stock_fst)
qed

theorem pass_list_within_universe_witness:
  "(\<forall>fs. mset (as_completed (example_env 55 []) fs) = mset fs)
   \<and> fst (batch_screen (example_env 55 []) [''AAA'', ''SHORT'', ''DOWN'', ''BBB''] initial_world)
       = [''BBB'', ''AAA'']
   \<and> set (fst (batch_screen (example_env 55 []) [''AAA'', ''SHORT'', ''DOWN'', ''BBB''] initial_world))
       \<subseteq> set [''AAA'', ''SHORT'', ''DOWN'', ''BBB'']
   \<and> fst (screen_stock (example_env 55 []) ''AAA'' initial_world) = Inr (Some ''AAA'')"
proof -
  have p: "\<forall>fs. mset (as_completed (example_env 55 []) fs) = mset fs"
    by (simp add: example_env_def)
  show ?thesis
    using pass_list_within_universe [OF p, of "[''AAA'', ''SHORT'', ''DOWN'', ''BBB'']"
        initial_world "''AAA''" initial_world] p
    by (simp add: example_batch screen_stock_fst example_unit_result)
qed

text \<open>
  The claim C3 as stated fails when the universe repeats a symbol: one future is
  submitted for each list entry, and each passing future appends its symbol.
\<close>

theorem pass_list_duplicates_counterexample:
  "fst (batch_screen (example_env 55 []) [''AAA'', ''AAA''] initial_world) = [''AAA'', ''AAA'']
   \<and> \<not> distinct (fst (batch_screen (example_env 55 []) [''AAA'', ''AAA''] initial_world))"
  by (simp add: batch_screen_def submit_eq example_unit_result) (simp add: example_env_def)

text \<open>
  Claim C3 (amended). For every input list of symbols and every completion order of the
  pool (so for every pool size), a symbol occurs in the passing list at most as often as
  it occurs in the input universe list; when the universe list has no repeated symbol,
  the passing list has no duplicates.
\<close>

theorem pass_list_multiplicity:
  assumes "\<forall>fs. mset (as_completed e fs) = mset fs"
  shows "count_list (fst (batch_screen e stock_symbols w)) symbol \<le> count_list stock_symbols symbol
       \<and> (distinct stock_symbols \<longrightarrow> distinct (fst (batch_screen e stock_symbols w)))"
proof -
  have m: "mset (fst (batch_screen e stock_symbols w)) = mset (filter (selects e) stock_symbols)"
    by (rule batch_screen_mset [OF assms])
  have "count (mset (fst (batch_screen e stock_symbols w))) symbol
      \<le> count (mset stock_symbols) symbol"
    unfolding m by simp
  then have c: "count_list (fst (batch_screen e stock_symbols w)) symbol
      \<le> count_list stock_symbols symbol"
    by (simp only: count_mset)
  have "distinct (fst (batch_screen e stock_symbols w))" if "distinct stock_symbols"
    using that mset_eq_imp_distinct_iff [OF m] by simp
  with c show ?thesis by simp
qed

theorem pass_list_multiplicity_witness:
  "(\<forall>fs. mset (as_completed (example_env 55 []) fs) = mset fs)
   \<and> distinct [''AAA'', ''SHORT'', ''DOWN'', ''BBB'']
   \<and> distinct (fst (batch_screen (example_env 55 []) [''AAA'', ''SHORT'', ''DOWN'', ''BBB''] initial_world))
   \<and> count_list (fst (batch_screen (example_env 55 []) [''AAA'', ''SHORT'', ''DOWN'', ''BBB''] initial_world)) ''AAA'' = 1"
proof -
  have p: "\<forall>fs. mset (as_completed (example_env 55 []) fs) = mset fs"
    by (simp add: example_env_def)
  have d: "distinct [''AAA'', ''SHORT'', ''DOWN'', ''BBB'']" by simp
  show ?thesis
    using pass_list_multiplicity [OF p, of "[''AAA'', ''SHORT'', ''DOWN'', ''BBB'']"
        initial_world "''AAA''"] p d
    by (simp add: example_batch)
qed

text \<open>
  Claim C4. When the provider fails for one symbol \<open>s\<close> (it raises, returns nothing or
  an empty series) or the indicator computation of its unit raises, every other symbol's
  result is what it is without the failure (with the same indicator library: the means
  of pandas and the RSI), \<open>s\<close> is not in the passing list, every other symbol that
  passes is in it, and the batch has fetched every symbol of the list: it runs to
  completion.
\<close>

theorem failure_isolation:
  assumes perm: "\<forall>fs. mset (as_completed e' fs) = mset fs"
    and same: "\<forall>t. t \<noteq> s \<longrightarrow> get_hist e' t = get_hist e t"
    and lib: "rolling_mean e' = rolling_mean e" "series_mean e' = series_mean e"
      "rsi_indicator e' = rsi_indicator e"
    and fail: "(\<exists>err. get_hist e' s = Inl err) \<or> get_hist e' s = Inr None
             \<or> get_hist e' s = Inr (Some [])
             \<or> (\<exists>df err. get_hist e' s = Inr (Some df) \<and> rsi_indicator e' (map close df) = Inl err)"
  shows "(\<forall>t. t \<noteq> s \<longrightarrow> fst (screen_stock e' t w1) = fst (screen_stock e t w2))
       \<and> s \<notin> set (fst (batch_screen e' stock_symbols w))
       \<and> (\<forall>t. t \<in> set stock_symbols \<and> t \<noteq> s \<and> t \<noteq> [] \<and> fst (screen_stock e t w2) = Inr (Some t)
              \<longrightarrow> t \<in> set (fst (batch_screen e' stock_symbols w)))
       \<and> calls (snd (batch_screen e' stock_symbols w)) = calls w @ map GetHist stock_symbols"
proof -
  have others: "unit_result e' t = unit_result e t" if "t \<noteq> s" for t
    using that same lib by (intro unit_result_cong) simp_all
  have failing: "unit_result e' s \<noteq> Inr (Some s)"
    using fail
  proof (elim disjE exE conjE)
    fix err assume "get_hist e' s = Inl err"
    then show ?thesis by (simp add: unit_result_def)
  next
    assume "get_hist e' s = Inr None"
    then show ?thesis by (simp add: unit_result_def)
  next
    assume "get_hist e' s = Inr (Some [])"
    then show ?thesis by (simp add: unit_result_def)
  next
    fix df err
    assume "get_hist e' s = Inr (Some df)" and "rsi_indicator e' (map close df) = Inl err"
    then show ?thesis by (rule unit_result_rsi_raises)
  qed
  have sel: "set (fst (batch_screen e' stock_symbols w)) = set (filter (selects e') stock_symbols)"
    using batch_screen_mset [OF perm, of stock_symbols w] by (rule mset_eq_setD)
  have 1: "\<forall>t. t \<noteq> s \<longrightarrow> fst (screen_stock e' t w1) = fst (screen_stock e t w2)"
    using others by (simp add: screen_stock_fst)
  have 2: "s \<notin> set (fst (batch_screen e' stock_symbols w))"
    using failing by (simp add: sel selects_def)
  have 3: "\<forall>t. t \<in> set stock_symbols \<and> t \<noteq> s \<and> t \<noteq> [] \<and> fst (screen_stock e t w2) = Inr (Some t)
              \<longrightarrow> t \<in> set (fst (batch_screen e' stock_symbols w))"
    using others by (simp add: sel selects_def screen_stock_fst)
  have 4: "calls (snd (batch_screen e' stock_symbols w)) = calls w @ map GetHist stock_symbols"
    by (simp add: batch_screen_snd)
  from 1 2 3 4 show ?thesis by (intro conjI)
qed

theorem failure_isolation_witness:
  "(\<forall>fs. mset (as_completed outage_env fs) = mset fs)
   \<and> get_hist outage_env ''BBB'' = Inl ExternalError
   \<and> fst (screen_stock (example_env 55 [''AAA'', ''BBB'']) ''BBB'' initial_world) = Inr (Some ''BBB'')
   \<and> fst (screen_stock outage_env ''AAA'' initial_world)
       = fst (screen_stock (example_env 55 [''AAA'', ''BBB'']) ''AAA'' initial_world)
   \<and> ''BBB'' \<notin> set (fst (batch_screen outage_env [''AAA'', ''BBB''] initial_world))
   \<and> ''AAA'' \<in> set (fst (batch_screen outage_env [''AAA'', ''BBB''] initial_world))
   \<and> calls (snd (batch_screen outage_env [''AAA'', ''BBB''] initial_world))
       = [GetHist ''AAA'', GetHist ''BBB'']"
proof -
  have perm: "\<forall>fs. mset (as_completed outage_env fs) = mset fs"
    by (simp add: outage_env_def example_env_def)
  have same: "\<forall>t. t \<noteq> ''BBB'' \<longrightarrow> get_hist outage_env t = get_hist (example_env 55 [''AAA'', ''BBB'']) t"
    by (simp add: outage_env_def)
  have lib: "rolling_mean outage_env = rolling_mean (example_env 55 [''AAA'', ''BBB''])"
    "series_mean outage_env = series_mean (example_env 55 [''AAA'', ''BBB''])"
    "rsi_indicator outage_env = rsi_indicator (example_env 55 [''AAA'', ''BBB''])"
    by (simp_all add: outage_env_def)
  have g: "get_hist outage_env ''BBB'' = Inl ExternalError"
    by (simp add: outage_env_def)
  then have fail: "(\<exists>err. get_hist outage_env ''BBB'' = Inl err) \<or> get_hist outage_env ''BBB'' = Inr None
             \<or> get_hist outage_env ''BBB'' = Inr (Some [])
             \<or> (\<exists>df err. get_hist outage_env ''BBB'' = Inr (Some df)
                   \<and> rsi_indicator outage_env (map close df) = Inl err)"
    by simp
  have a: "fst (screen_stock (example_env 55 [''AAA'', ''BBB'']) ''AAA'' initial_world) = Inr (Some ''AAA'')"
    and b: "fst (screen_stock (example_env 55 [''AAA'', ''BBB'']) ''BBB'' initial_world) = Inr (Some ''BBB'')"
    by (simp_all add: screen_stock_fst example_unit_result)
  show ?thesis
    using failure_isolation [OF perm same lib fail, of initial_world initial_world
        "[''AAA'', ''BBB'']" initial_world] perm g a b
    by (simp add: initial_world_def)
qed

text \<open>
  The claim C2 as stated fails: the unit returns \<open>None\<close> for a series of 120 bars, and
  it returns the same \<open>None\<close> for a series of 250 bars that fails the rule (RSI 75), so
  the two outcomes are not distinct.
\<close>

theorem unavailable_same_as_fail_counterexample:
  "get_hist (example_env 75 []) ''SHORT'' = Inr (Some (take 120 scenario_frame))
   \<and> length (take 120 scenario_frame) = 120
   \<and> get_hist (example_env 75 []) ''AAA'' = Inr (Some scenario_frame)
   \<and> length scenario_frame = 250
   \<and> \<not> spec_pass (latest_snapshot (example_env 75 []) scenario_frame)
   \<and> fst (screen_stock (example_env 75 []) ''SHORT'' initial_world) = Inr None
   \<and> fst (screen_stock (example_env 75 []) ''AAA'' initial_world) = Inr None
   \<and> fst (screen_stock (example_env 75 []) ''SHORT'' initial_world)
       = fst (screen_stock (example_env 75 []) ''AAA'' initial_world)"
  by (simp add: screen_stock_fst example_unit_result length_scenario_frame
      snapshot_scenario_frame)
    (simp add: example_env_def spec_pass_def scenario_def)

text \<open>
  Claim C2 (amended). For every symbol whose data is unavailable (the provider raises or
  returns nothing) or whose series has fewer than 200 bars, the unit returns \<open>None\<close>:
  the symbol never passes and is never in the passing list. This is the value returned
  for a symbol that fails the rule; there is no separate verdict or bucket.
\<close>

theorem unavailable_returns_none:
  assumes "(\<exists>err. get_hist e symbol = Inl err) \<or> get_hist e symbol = Inr None
           \<or> (\<exists>df. get_hist e symbol = Inr (Some df) \<and> length df < 200)"
    and "\<forall>fs. mset (as_completed e fs) = mset fs"
  shows "fst (screen_stock e symbol w) = Inr None
       \<and> symbol \<notin> set (fst (batch_screen e stock_symbols w'))"
proof -
  have u: "unit_result e symbol = Inr None"
    using assms(1) by (rule unit_result_unavailable)
  have "set (fst (batch_screen e stock_symbols w')) = set (filter (selects e) stock_symbols)"
    using batch_screen_mset [OF assms(2), of stock_symbols w'] by (rule mset_eq_setD)
  with u show ?thesis by (simp add: screen_stock_fst selects_def)
qed

theorem unavailable_returns_none_witness:
  "get_hist (example_env 55 []) ''SHORT'' = Inr (Some (take 120 scenario_frame))
   \<and> length (take 120 scenario_frame) < 200
   \<and> (\<forall>fs. mset (as_completed (example_env 55 []) fs) = mset fs)
   \<and> fst (screen_stock (example_env 55 []) ''SHORT'' initial_world) = Inr None
   \<and> ''SHORT'' \<notin> set (fst (batch_screen (example_env 55 []) [''AAA'', ''SHORT''] initial_world))"
proof -
  have g: "get_hist (example_env 55 []) ''SHORT'' = Inr (Some (take 120 scenario_frame))"
    by (simp add: example_env_def)
  have l: "length (take 120 scenario_frame) < 200"
    by (simp add: length_scenario_frame)
  from g l have h: "(\<exists>err. get_hist (example_env 55 []) ''SHORT'' = Inl err)
      \<or> get_hist (example_env 55 []) ''SHORT'' = Inr None
      \<or> (\<exists>df. get_hist (example_env 55 []) ''SHORT'' = Inr (Some df) \<and> length df < 200)"
    by simp
  have p: "\<forall>fs. mset (as_completed (example_env 55 []) fs) = mset fs"
    by (simp add: example_env_def)
  show ?thesis
    using unavailable_returns_none [OF h p, of initial_world "[''AAA'', ''SHORT'']" initial_world]
      g l p
    by simp
qed

text \<open>
  Claim C9. The result of a unit is a function of the symbol's fetched series (and of the
  indicator library: the means of pandas and the RSI): two evaluations on the same series
  give the same verdict, whatever
  the global state, the other symbols' data, the schedule and the live feed are, and the
  same result when the symbol is the same.
\<close>

theorem verdict_depends_on_series_only:
  assumes "get_hist e1 s1 = get_hist e2 s2"
    and "rolling_mean e1 = rolling_mean e2" and "series_mean e1 = series_mean e2"
    and "rsi_indicator e1 = rsi_indicator e2"
  shows "verdict_of (fst (screen_stock e1 s1 w1)) = verdict_of (fst (screen_stock e2 s2 w2))
       \<and> (s1 = s2 \<longrightarrow> fst (screen_stock e1 s1 w1) = fst (screen_stock e2 s2 w2))"
proof -
  have u1: "unit_result e1 s1 =
     (case get_hist e2 s2 of Inl err \<Rightarrow> Inr None | Inr None \<Rightarrow> Inr None
      | Inr (Some df) \<Rightarrow> if 200 \<le> length df then evaluate e2 s1 df else Inr None)"
    unfolding unit_result_def assms(1) [symmetric]
    by (simp add: evaluate_cong [OF assms(2,3,4)] split: sum.splits option.splits)
  have v: "verdict_of (unit_result e1 s1) = verdict_of (unit_result e2 s2)"
    unfolding u1 unfolding unit_result_def
    by (simp add: evaluate_verdict [of e2 s1 _ s2] verdict_of_def [of "Inr None"]
        split: sum.splits option.splits)
  have "unit_result e1 s1 = unit_result e2 s2" if "s1 = s2"
    unfolding u1 unfolding unit_result_def using that
    by (simp split: sum.splits option.splits)
  with v show ?thesis by (simp add: screen_stock_fst)
qed

theorem verdict_depends_on_series_only_witness:
  "get_hist (example_env 55 [''AAA'']) ''AAA''
     = get_hist ((example_env 55 [''BBB''])\<lparr>as_completed := (\<lambda>fs. fs), feed_raises := (\<lambda>c. True)\<rparr>) ''BBB''
   \<and> fst (screen_stock ((example_env 55 [''BBB''])\<lparr>as_completed := (\<lambda>fs. fs), feed_raises := (\<lambda>c. True)\<rparr>)
          ''AAA'' \<lparr>stop_flag = True, seis_list = [''AAA''], calls = [GetHist ''AAA'']\<rparr>)
       = fst (screen_stock (example_env 55 [''AAA'']) ''AAA'' initial_world)
   \<and> verdict_of (fst (screen_stock ((example_env 55 [''BBB''])\<lparr>as_completed := (\<lambda>fs. fs), feed_raises := (\<lambda>c. True)\<rparr>)
          ''BBB'' \<lparr>stop_flag = True, seis_list = [''AAA''], calls = [GetHist ''AAA'']\<rparr>))
       = Selected
   \<and> verdict_of (fst (screen_stock (example_env 55 [''AAA'']) ''AAA'' initial_world)) = Selected"
proof -
  let ?e2 = "(example_env 55 [''BBB''])\<lparr>as_completed := (\<lambda>fs. fs), feed_raises := (\<lambda>c. True)\<rparr>"
  let ?w2 = "\<lparr>stop_flag = True, seis_list = [''AAA''], calls = [GetHist ''AAA'']\<rparr>"
  have g: "get_hist (example_env 55 [''AAA'']) ''AAA'' = get_hist ?e2 ''BBB''"
    and g': "get_hist (example_env 55 [''AAA'']) ''AAA'' = get_hist ?e2 ''AAA''"
    and r: "rolling_mean (example_env 55 [''AAA'']) = rolling_mean ?e2"
      "series_mean (example_env 55 [''AAA'']) = series_mean ?e2"
      "rsi_indicator (example_env 55 [''AAA'']) = rsi_indicator ?e2"
    by (simp_all add: example_env_def)
  have v: "verdict_of (fst (screen_stock (example_env 55 [''AAA'']) ''AAA'' initial_world)) = Selected"
    by (simp add: screen_stock_fst example_unit_result verdict_of_def)
  show ?thesis
    using verdict_depends_on_series_only [OF g r, of initial_world ?w2]
      verdict_depends_on_series_only [OF g' r, of initial_world ?w2] g v
    by simp
qed

text \<open>
  Claim C8. Once the stop flag is set during a batch run, no new screening unit starts.
  The signal handler sets the flag, but neither the batch nor a unit reads it: started
  from the state the handler leaves, with the flag set, the batch still fetches and
  evaluates every symbol of the list.
\<close>

theorem units_start_after_stop_flag:
  "stop_flag (snd (signal_handler (example_env 55 []) initial_world)) = True
   \<and> batch_screen (example_env 55 []) [''AAA'', ''SHORT'', ''DOWN'', ''BBB'']
        (snd (signal_handler (example_env 55 []) initial_world))
     = ([''BBB'', ''AAA''],
        \<lparr>stop_flag = True, seis_list = [],
           calls = [GetHist ''AAA'', GetHist ''SHORT'', GetHist ''DOWN'', GetHist ''BBB'']\<rparr>)"
proof -
  have s: "snd (signal_handler (example_env 55 []) initial_world)
      = \<lparr>stop_flag = True, seis_list = [], calls = []\<rparr>"
    by (simp add: signal_handler_def initial_world_def)
  show ?thesis
    unfolding s
    by (rule conjI, simp, rule prod_eqI) (simp_all add: example_batch batch_screen_snd)
qed

section \<open>Subscriptions and shutdown\<close>

lemma subscribe_no_raise:
  assumes "\<forall>c. \<not> feed_raises e c"
  shows "subscribe e selected_stocks w =
     (Returned, w\<lparr>calls := calls w @ subscribe_calls selected_stocks,
                  seis_list := seis_list w @ selected_stocks\<rparr>)"
  using assms
  by (induction selected_stocks arbitrary: w) (simp_all add: feed_call_def subscribe_calls_def)

lemma count_subscribe_calls:
  "count_list (subscribe_calls selected_stocks) (NewSeis symbol) = count_list selected_stocks symbol
   \<and> count_list (subscribe_calls selected_stocks) (NewConsumer symbol) = count_list selected_stocks symbol"
  by (induction selected_stocks) (simp_all add: subscribe_calls_def)

lemma teardown_calls_Cons:
  "teardown_calls (s # rest) = DelConsumer s # DelSeis s # teardown_calls rest"
  by (simp add: teardown_calls_def)

lemma teardown_trace:
  "calls (snd (teardown e seis w)) = calls w @ until_raise e (teardown_calls seis)"
  by (induction seis arbitrary: w)
    (simp_all add: teardown_calls_Cons feed_call_def, simp add: teardown_calls_def)

lemma teardown_no_raise:
  assumes "list_all (\<lambda>c. \<not> feed_raises e c) (teardown_calls seis)"
  shows "teardown e seis w = (Inr (), w\<lparr>calls := calls w @ teardown_calls seis\<rparr>)"
  using assms
  by (induction seis arbitrary: w)
    (simp_all add: teardown_calls_Cons feed_call_def, simp add: teardown_calls_def)

text \<open>
  The claim C5 as stated fails: for a symbol that appears twice in the passing list,
  \<open>main\<close> calls \<open>new_seis\<close> twice and \<open>new_consumer\<close> twice, and \<open>seis_list\<close>
  holds two entries for it.
\<close>

theorem subscribed_twice_counterexample:
  "main (example_env 55 [''AAA'', ''AAA'']) initial_world =
     (Returned, \<lparr>stop_flag = False, seis_list = [''AAA'', ''AAA''],
        calls = [GetHist ''AAA'', GetHist ''AAA'', NewSeis ''AAA'', NewConsumer ''AAA'',
                 NewSeis ''AAA'', NewConsumer ''AAA'']\<rparr>)
   \<and> count_list (seis_list (snd (main (example_env 55 [''AAA'', ''AAA'']) initial_world))) ''AAA'' = 2
   \<and> count_list (calls (snd (main (example_env 55 [''AAA'', ''AAA'']) initial_world))) (NewSeis ''AAA'') = 2
   \<and> count_list (calls (snd (main (example_env 55 [''AAA'', ''AAA'']) initial_world))) (NewConsumer ''AAA'') = 2"
proof -
  have r: "read_excel (example_env 55 [''AAA'', ''AAA'']) = Inr [''AAA'', ''AAA'']"
    and f: "\<forall>c. \<not> feed_raises (example_env 55 [''AAA'', ''AAA'']) c"
    by (simp_all add: example_env_def)
  have "main (example_env 55 [''AAA'', ''AAA'']) initial_world =
     (Returned, \<lparr>stop_flag = False, seis_list = [''AAA'', ''AAA''],
        calls = [GetHist ''AAA'', GetHist ''AAA'', NewSeis ''AAA'', NewConsumer ''AAA'',
                 NewSeis ''AAA'', NewConsumer ''AAA'']\<rparr>)"
    by (simp add: main_def load_stock_symbols_def r example_batch_twice subscribe_no_raise [OF f]
        subscribe_calls_def initial_world_def del: subscribe.simps)
  then show ?thesis by simp
qed

text \<open>
  Claim C5 (amended). When no call on the live feed raises, \<open>main\<close> opens one feed
  (\<open>new_seis\<close>), attaches one consumer (\<open>new_consumer\<close>) and tracks one subscription
  for each occurrence of a symbol in the passing list: a symbol that occurs once there
  has exactly one feed and one consumer, a symbol that occurs twice has two of each.
\<close>

theorem subscriptions_per_occurrence:
  assumes "read_excel e = Inr stock_symbols" and "\<forall>c. \<not> feed_raises e c"
  shows "fst (main e w) = Returned
       \<and> count_list (seis_list (snd (main e w))) symbol
           = count_list (seis_list w) symbol + count_list (fst (batch_screen e stock_symbols w)) symbol
       \<and> count_list (calls (snd (main e w))) (NewSeis symbol)
           = count_list (calls w) (NewSeis symbol) + count_list (fst (batch_screen e stock_symbols w)) symbol
       \<and> count_list (calls (snd (main e w))) (NewConsumer symbol)
           = count_list (calls w) (NewConsumer symbol) + count_list (fst (batch_screen e stock_symbols w)) symbol"
proof -
  obtain selected_stocks w1 where b: "batch_screen e stock_symbols w = (selected_stocks, w1)"
    by (cases "batch_screen e stock_symbols w")
  have w1: "w1 = w\<lparr>calls := calls w @ map GetHist stock_symbols\<rparr>"
    using batch_screen_snd [of e stock_symbols w] b by simp
  have m: "main e w = (Returned, w1\<lparr>calls := calls w1 @ subscribe_calls selected_stocks,
                                   seis_list := seis_list w1 @ selected_stocks\<rparr>)"
    using assms b
    by (simp add: main_def load_stock_symbols_def subscribe_no_raise del: subscribe.simps)
  have g: "count_list (map GetHist stock_symbols) (NewSeis symbol) = 0"
    "count_list (map GetHist stock_symbols) (NewConsumer symbol) = 0"
    by (induction stock_symbols) simp_all
  show ?thesis
    unfolding m b using count_subscribe_calls [of selected_stocks symbol]
    by (simp add: w1 g)
qed

theorem subscriptions_per_occurrence_witness:
  "read_excel (example_env 55 [''AAA'', ''SHORT'', ''DOWN'', ''BBB'']) = Inr [''AAA'', ''SHORT'', ''DOWN'', ''BBB'']
   \<and> (\<forall>c. \<not> feed_raises (example_env 55 [''AAA'', ''SHORT'', ''DOWN'', ''BBB'']) c)
   \<and> fst (main (example_env 55 [''AAA'', ''SHORT'', ''DOWN'', ''BBB'']) initial_world) = Returned
   \<and> count_list (seis_list (snd (main (example_env 55 [''AAA'', ''SHORT'', ''DOWN'', ''BBB'']) initial_world))) ''AAA'' = 1
   \<and> count_list (calls (snd (main (example_env 55 [''AAA'', ''SHORT'', ''DOWN'', ''BBB'']) initial_world))) (NewSeis ''AAA'') = 1
   \<and> count_list (calls (snd (main (example_env 55 [''AAA'', ''SHORT'', ''DOWN'', ''BBB'']) initial_world))) (NewConsumer ''AAA'') = 1"
proof -
  let ?e = "example_env 55 [''AAA'', ''SHORT'', ''DOWN'', ''BBB'']"
  have r: "read_excel ?e = Inr [''AAA'', ''SHORT'', ''DOWN'', ''BBB'']"
    and f: "\<forall>c. \<not> feed_raises ?e c"
    by (simp_all add: example_env_def)
  show ?thesis
    using subscriptions_per_occurrence [OF r f, of initial_world "''AAA''"] r f
    by (simp add: example_batch) (simp add: initial_world_def)
qed

text \<open>
  The claim C6 as stated fails: when detaching the consumer of the first subscription
  raises, the exception leaves the handler; its feed is not closed and the second
  subscription is not torn down.
\<close>

theorem teardown_stops_at_raise_counterexample:
  "signal_handler detach_fails_env \<lparr>stop_flag = False, seis_list = [''AAA'', ''BBB''], calls = []\<rparr>
     = (Uncaught ExternalError,
        \<lparr>stop_flag = True, seis_list = [''AAA'', ''BBB''], calls = [DelConsumer ''AAA'']\<rparr>)
   \<and> DelSeis ''AAA'' \<notin> set (calls (snd (signal_handler detach_fails_env
         \<lparr>stop_flag = False, seis_list = [''AAA'', ''BBB''], calls = []\<rparr>)))
   \<and> DelConsumer ''BBB'' \<notin> set (calls (snd (signal_handler detach_fails_env
         \<lparr>stop_flag = False, seis_list = [''AAA'', ''BBB''], calls = []\<rparr>)))
   \<and> DelSeis ''BBB'' \<notin> set (calls (snd (signal_handler detach_fails_env
         \<lparr>stop_flag = False, seis_list = [''AAA'', ''BBB''], calls = []\<rparr>)))"
  by (simp add: signal_handler_def feed_call_def detach_fails_env_def)

text \<open>
  Claim C6 (amended). The handler attempts the teardown steps in the order of the tracked
  subscriptions, for each the detach of the consumer and then the close of the feed, up
  to and including the first step that raises; when no step raises, both steps are done
  for every tracked subscription and the process exits with status 0.
\<close>

theorem teardown_until_first_raise:
  "calls (snd (signal_handler e w)) = calls w @ until_raise e (teardown_calls (seis_list w))
   \<and> (list_all (\<lambda>c. \<not> feed_raises e c) (teardown_calls (seis_list w))
        \<longrightarrow> signal_handler e w
            = (SysExit 0, w\<lparr>stop_flag := True, calls := calls w @ teardown_calls (seis_list w)\<rparr>))"
proof -
  have "calls (snd (signal_handler e w))
      = calls (snd (teardown e (seis_list w) (w\<lparr>stop_flag := True\<rparr>)))"
    by (simp add: signal_handler_def Let_def split: prod.splits sum.splits)
  then have t: "calls (snd (signal_handler e w))
      = calls w @ until_raise e (teardown_calls (seis_list w))"
    by (simp add: teardown_trace)
  have "signal_handler e w
      = (SysExit 0, w\<lparr>stop_flag := True, calls := calls w @ teardown_calls (seis_list w)\<rparr>)"
    if "list_all (\<lambda>c. \<not> feed_raises e c) (teardown_calls (seis_list w))"
    using that by (simp add: signal_handler_def teardown_no_raise)
  with t show ?thesis by simp
qed

theorem teardown_until_first_raise_witness:
  "list_all (\<lambda>c. \<not> feed_raises (example_env 55 []) c) (teardown_calls [''AAA'', ''BBB''])
   \<and> signal_handler (example_env 55 []) \<lparr>stop_flag = False, seis_list = [''AAA'', ''BBB''], calls = []\<rparr>
     = (SysExit 0, \<lparr>stop_flag = True, seis_list = [''AAA'', ''BBB''],
          calls = [DelConsumer ''AAA'', DelSeis ''AAA'', DelConsumer ''BBB'', DelSeis ''BBB'']\<rparr>)
   \<and> calls (snd (signal_handler detach_fails_env
          \<lparr>stop_flag = False, seis_list = [''AAA'', ''BBB''], calls = []\<rparr>)) = [DelConsumer ''AAA'']"
proof -
  have n: "list_all (\<lambda>c. \<not> feed_raises (example_env 55 []) c) (teardown_calls [''AAA'', ''BBB''])"
    by (simp add: example_env_def teardown_calls_def)
  have u: "until_raise detach_fails_env (teardown_calls [''AAA'', ''BBB'']) = [DelConsumer ''AAA'']"
    by (simp add: teardown_calls_def detach_fails_env_def)
  show ?thesis
    using teardown_until_first_raise
        [of "example_env 55 []" "\<lparr>stop_flag = False, seis_list = [''AAA'', ''BBB''], calls = []\<rparr>"]
      teardown_until_first_raise
        [of detach_fails_env "\<lparr>stop_flag = False, seis_list = [''AAA'', ''BBB''], calls = []\<rparr>"]
      n u
    by (simp add: teardown_calls_def)
qed

text \<open>
  The claim C7 as stated fails: with an empty universe list \<open>main\<close> logs a warning and
  returns; nothing exits the process with a non-zero status.
\<close>

theorem empty_universe_returns_counterexample:
  "read_excel (example_env 55 []) = Inr []
   \<and> main (example_env 55 []) initial_world = (Returned, initial_world)
   \<and> fst (main (example_env 55 []) initial_world) \<noteq> SysExit 1"
  by (simp add: main_def load_stock_symbols_def batch_screen_def example_env_def)

text \<open>
  Claim C7 (amended). If reading the symbol universe raises, the program exits with
  status 1 before any screening or subscription work. If the universe list is empty, no
  screening or subscription work is done and \<open>main\<close> returns normally. When the list
  is read and no call on the live feed raises, \<open>main\<close> returns normally whatever the
  screening units do.
\<close>

theorem load_failure_exits_empty_list_returns:
  "(read_excel e = Inl err \<longrightarrow> main e w = (SysExit 1, w))
   \<and> (read_excel e = Inr [] \<longrightarrow> main e w = (Returned, w))
   \<and> (read_excel e = Inr stock_symbols \<and> (\<forall>c. \<not> feed_raises e c) \<longrightarrow> fst (main e w) = Returned)"
proof -
  have "fst (main e w) = Returned" if "read_excel e = Inr stock_symbols" "\<forall>c. \<not> feed_raises e c"
    using that
    by (simp add: main_def load_stock_symbols_def subscribe_no_raise case_prod_beta
        del: subscribe.simps)
  then show ?thesis
    by (simp add: main_def load_stock_symbols_def batch_screen_def)
qed

theorem load_failure_exits_empty_list_returns_witness:
  "read_excel ((example_env 55 [])\<lparr>read_excel := Inl ExternalError\<rparr>) = Inl ExternalError
   \<and> main ((example_env 55 [])\<lparr>read_excel := Inl ExternalError\<rparr>) initial_world = (SysExit 1, initial_world)
   \<and> read_excel (example_env 55 []) = Inr []
   \<and> main (example_env 55 []) initial_world = (Returned, initial_world)
   \<and> read_excel (example_env 55 [''DOWN'', ''SHORT'']) = Inr [''DOWN'', ''SHORT'']
   \<and> (\<forall>c. \<not> feed_raises (example_env 55 [''DOWN'', ''SHORT'']) c)
   \<and> fst (main (example_env 55 [''DOWN'', ''SHORT'']) initial_world) = Returned"
proof -
  have a: "read_excel ((example_env 55 [])\<lparr>read_excel := Inl ExternalError\<rparr>) = Inl ExternalError"
    and b: "read_excel (example_env 55 []) = Inr []"
    and c: "read_excel (example_env 55 [''DOWN'', ''SHORT'']) = Inr [''DOWN'', ''SHORT'']"
    and d: "\<forall>c. \<not> feed_raises (example_env 55 [''DOWN'', ''SHORT'']) c"
    by (simp_all add: example_env_def)
  show ?thesis
    using load_failure_exits_empty_list_returns
        [of "(example_env 55 [])\<lparr>read_excel := Inl ExternalError\<rparr>" ExternalError initial_world]
      load_failure_exits_empty_list_returns [of "example_env 55 []" _ initial_world]
      load_failure_exits_empty_list_returns
        [of "example_env 55 [''DOWN'', ''SHORT'']" _ initial_world "[''DOWN'', ''SHORT'']"]
      a b c d
    by simp
qed

end
